theory Spec2Isabelle
  imports Main "HOL-Library.Word" "HOL-Library.Sublist"
begin

section \<open>JavaScript strings\<close>

text \<open>
  A JavaScript string is a sequence of 16-bit code units. The Turkish letters the encoder
  substitutes lie above U+00FF, so the 8-bit \<^typ>\<open>char\<close> of HOL cannot carry them:
  strings are lists of \<^typ>\<open>16 word\<close>. \<open>js\<close> embeds an ASCII literal.
\<close>

type_synonym jschar = "16 word"
type_synonym jsstring = "jschar list"

definition js :: "string \<Rightarrow> jsstring" where
  "js s = map of_char s"

text \<open>\<^verbatim>\<open>s.includes(pat)\<close>: \<open>pat\<close> occurs in \<open>s\<close> as a contiguous run of code units.\<close>

fun js_includes :: "jsstring \<Rightarrow> jsstring \<Rightarrow> bool" where
  "js_includes [] pat = (pat = [])"
| "js_includes (c # s) pat = (prefix pat (c # s) \<or> js_includes s pat)"

text \<open>
  \<^verbatim>\<open>s.split(sep)\<close> for a separator of one code unit: the pieces between the
  separators; a string without the separator, the empty string included, is one piece.
\<close>

fun js_split :: "jschar \<Rightarrow> jsstring \<Rightarrow> jsstring list" where
  "js_split sep [] = [[]]"
| "js_split sep (c # s) =
     (if c = sep then [] # js_split sep s
      else (case js_split sep s of [] \<Rightarrow> [[c]] | l # ls \<Rightarrow> (c # l) # ls))"

text \<open>\<^verbatim>\<open>parts.join(sep)\<close>.\<close>

fun js_join :: "jsstring \<Rightarrow> jsstring list \<Rightarrow> jsstring" where
  "js_join sep [] = []"
| "js_join sep [p] = p"
| "js_join sep (p # q # ps) = p @ sep @ js_join sep (q # ps)"

definition nl :: jschar where
  "nl = 0x0A"

section \<open>The encoder: \<^verbatim>\<open>convertToESCPOS\<close>\<close>

definition ESC :: jsstring where
  "ESC = [0x1B]"

definition GS :: jsstring where
  "GS = [0x1D]"

text \<open>
  \<^verbatim>\<open>turkishMap\<close>, in the order of \<^verbatim>\<open>Object.entries\<close> (insertion order): the code unit of
  each letter and the single code unit that replaces it.
\<close>

definition turkishMap :: "(jschar \<times> jschar) list" where
  "turkishMap =
     [(0xE7, 0x87), (0xC7, 0x80),
      (0x11F, 0x83), (0x11E, 0xA6),
      (0x131, 0x8D), (0x130, 0x98),
      (0xF6, 0x94), (0xD6, 0x99),
      (0x15F, 0x9F), (0x15E, 0x9E),
      (0xFC, 0x81), (0xDC, 0x9A)]"

text \<open>
  \<^verbatim>\<open>processedText.replace(new RegExp(turkish, 'g'), encoded)\<close> with a pattern of one
  code unit that is no regular-expression operator: every occurrence is replaced.
\<close>

definition replace_all :: "jschar \<Rightarrow> jschar \<Rightarrow> jsstring \<Rightarrow> jsstring" where
  "replace_all turkish encoded s = map (\<lambda>c. if c = turkish then encoded else c) s"

definition substitute :: "jsstring \<Rightarrow> jsstring" where
  "substitute text =
     foldl (\<lambda>processedText (turkish, encoded). replace_all turkish encoded processedText)
       text turkishMap"

text \<open>The body of the loop over the lines: what one line appends to \<^verbatim>\<open>commands\<close>.\<close>

definition emit_line :: "jsstring \<Rightarrow> jsstring \<Rightarrow> jsstring" where
  "emit_line commands line =
     (if js_includes line (js ''ISTANBUL RESTAURANT'') then
        commands @ (ESC @ js ''a'' @ [0x01]) @ (ESC @ js ''E'' @ [0x01]) @ (GS @ js ''!'' @ [0x11])
          @ (line @ [nl]) @ (ESC @ js ''E'' @ [0x00]) @ (GS @ js ''!'' @ [0x00])
      else if js_includes line (js ''TOPLAM:'') then
        commands @ (ESC @ js ''E'' @ [0x01]) @ (GS @ js ''!'' @ [0x10])
          @ (line @ [nl]) @ (ESC @ js ''E'' @ [0x00]) @ (GS @ js ''!'' @ [0x00])
      else if js_includes line (js ''==='') then
        commands @ (ESC @ js ''a'' @ [0x01]) @ (line @ [nl]) @ (ESC @ js ''a'' @ [0x00])
      else
        commands @ (line @ [nl]))"

definition convertToESCPOS :: "jsstring \<Rightarrow> jsstring" where
  "convertToESCPOS text =
     (let commands = [] @ (ESC @ js ''@'') @ (ESC @ js ''t'' @ [0x12]) @ (ESC @ js ''R'' @ [0x12]);
          processedText = substitute text;
          lines = js_split nl processedText;
          commands = foldl emit_line commands lines
      in commands @ (GS @ js ''V'' @ [0x00]))"

text \<open>The opening codes and the closing code, as the encoder writes them.\<close>

definition init_codes :: jsstring where
  "init_codes = (ESC @ js ''@'') @ (ESC @ js ''t'' @ [0x12]) @ (ESC @ js ''R'' @ [0x12])"

definition cut_code :: jsstring where
  "cut_code = GS @ js ''V'' @ [0x00]"

text \<open>
  The classification of a line as a design states it: an ordered list of patterns, each
  with the codes before and after the line, checked from the top; the first pattern found
  in the line decides. The loop body above is compared with it below.
\<close>

definition classification_patterns :: "(jsstring \<times> jsstring \<times> jsstring) list" where
  "classification_patterns =
     [(js ''ISTANBUL RESTAURANT'',
         (ESC @ js ''a'' @ [0x01]) @ (ESC @ js ''E'' @ [0x01]) @ (GS @ js ''!'' @ [0x11]),
         (ESC @ js ''E'' @ [0x00]) @ (GS @ js ''!'' @ [0x00])),
      (js ''TOPLAM:'',
         (ESC @ js ''E'' @ [0x01]) @ (GS @ js ''!'' @ [0x10]),
         (ESC @ js ''E'' @ [0x00]) @ (GS @ js ''!'' @ [0x00])),
      (js ''==='',
         ESC @ js ''a'' @ [0x01],
         ESC @ js ''a'' @ [0x00])]"

definition bracket :: "jsstring \<times> jsstring \<times> jsstring \<Rightarrow> jsstring \<Rightarrow> jsstring" where
  "bracket p line = (case p of (pat, before, after) \<Rightarrow> before @ (line @ [nl]) @ after)"

definition first_match :: "jsstring \<Rightarrow> (jsstring \<times> jsstring \<times> jsstring) option" where
  "first_match line = find (\<lambda>p. js_includes line (fst p)) classification_patterns"

section \<open>JavaScript values and built-ins\<close>

text \<open>
  The values a parsed JSON document or a request body can hold, \<open>undefined\<close>, and the
  numbers that \<^verbatim>\<open>parseInt\<close> can return. A number is an integer (\<open>JNum\<close>), \<^verbatim>\<open>NaN\<close> or an
  infinity; numbers with a fraction are outside the model. An object is its table of own
  properties, the first binding of a key being its value.
\<close>

datatype jsval =
    JUndefined
  | JNull
  | JBool bool
  | JNum int
  | JNaN
  | JInfinity
  | JNegInfinity
  | JStr jsstring
  | JArr "jsval list"
  | JObj "(jsstring \<times> jsval) list"

text \<open>What \<^verbatim>\<open>v || d\<close>, \<^verbatim>\<open>a && b\<close> and \<^verbatim>\<open>if (v)\<close> test.\<close>

fun truthy :: "jsval \<Rightarrow> bool" where
  "truthy JUndefined = False"
| "truthy JNull = False"
| "truthy (JBool b) = b"
| "truthy (JNum n) = (n \<noteq> 0)"
| "truthy JNaN = False"
| "truthy JInfinity = True"
| "truthy JNegInfinity = True"
| "truthy (JStr s) = (s \<noteq> [])"
| "truthy (JArr vs) = True"
| "truthy (JObj props) = True"

text \<open>
  \<^verbatim>\<open>v.key\<close> for the keys the program reads (\<^verbatim>\<open>type\<close>, \<^verbatim>\<open>host\<close>, \<^verbatim>\<open>port\<close>, \<^verbatim>\<open>name\<close>),
  none of which a built-in prototype defines: \<open>None\<close> is the \<^verbatim>\<open>TypeError\<close> that reading a
  property of \<^verbatim>\<open>null\<close> or \<^verbatim>\<open>undefined\<close> throws.
\<close>

fun get_prop :: "jsval \<Rightarrow> jsstring \<Rightarrow> jsval option" where
  "get_prop JUndefined key = None"
| "get_prop JNull key = None"
| "get_prop (JObj props) key =
     (case map_of props key of None \<Rightarrow> Some JUndefined | Some v \<Rightarrow> Some v)"
| "get_prop v key = Some JUndefined"

text \<open>\<^verbatim>\<open>v || d\<close>.\<close>

definition or_else :: "jsval \<Rightarrow> jsval \<Rightarrow> jsval" where
  "or_else v d = (if truthy v then v else d)"

text \<open>
  \<^verbatim>\<open>s.toLowerCase()\<close>. The ASCII capitals are lowered; U+0130 and U+212A are the two
  code units above U+007F whose lower case holds an ASCII letter. JavaScript lowers other
  letters above U+007F to code units above U+007F; the model leaves them as they are, which
  changes no comparison with an ASCII name.
\<close>

definition lower_unit :: "jschar \<Rightarrow> jsstring" where
  "lower_unit c =
     (if 0x41 \<le> c \<and> c \<le> 0x5A then [c + 0x20]
      else if c = 0x130 then [0x69, 0x307]
      else if c = 0x212A then [0x6B]
      else [c])"

definition toLowerCase :: "jsstring \<Rightarrow> jsstring" where
  "toLowerCase s = concat (map lower_unit s)"

text \<open>The white space and line terminators that \<^verbatim>\<open>trim\<close> and \<^verbatim>\<open>parseInt\<close> skip.\<close>

definition js_whitespace :: "jschar \<Rightarrow> bool" where
  "js_whitespace c =
     (c \<in> set [0x09, 0x0A, 0x0B, 0x0C, 0x0D, 0x20, 0xA0, 0x1680, 0x2028, 0x2029, 0x202F,
               0x205F, 0x3000, 0xFEFF]
      \<or> (0x2000 \<le> c \<and> c \<le> 0x200A))"

definition trim :: "jsstring \<Rightarrow> jsstring" where
  "trim s = rev (dropWhile js_whitespace (rev (dropWhile js_whitespace s)))"

text \<open>The value of a digit in a radix, \<open>None\<close> when the code unit is no digit of it.\<close>

definition digit_value :: "nat \<Rightarrow> jschar \<Rightarrow> nat option" where
  "digit_value radix c =
     (let v = (if 0x30 \<le> c \<and> c \<le> 0x39 then Some (unat c - 0x30)
               else if 0x61 \<le> c \<and> c \<le> 0x7A then Some (unat c - 0x61 + 10)
               else if 0x41 \<le> c \<and> c \<le> 0x5A then Some (unat c - 0x41 + 10)
               else None)
      in case v of None \<Rightarrow> None | Some d \<Rightarrow> if d < radix then Some d else None)"

text \<open>
  A number is a double. An integer of at most 53 bits is a double as it is; a longer one is
  rounded to 53 significant bits, to the nearest such number and to the even one of two
  that are equally near; a rounded value of more than 1024 bits, which is one from
  \<open>2^1024\<close> on, is infinite. \<open>bitlen\<close> is the number of bits of a number.
\<close>

fun bitlen :: "nat \<Rightarrow> nat" where
  "bitlen n = (if n = 0 then 0 else Suc (bitlen (n div 2)))"

declare bitlen.simps [simp del]

definition round_double :: "nat \<Rightarrow> nat" where
  "round_double m =
     (if bitlen m \<le> 53 then m
      else
        (let shift = bitlen m - 53;
             q = m div 2 ^ shift;
             r = m mod 2 ^ shift;
             half = 2 ^ (shift - 1);
             q = (if half < r \<or> (r = half \<and> odd q) then q + 1 else q)
         in q * 2 ^ shift))"

definition to_number :: "int \<Rightarrow> nat \<Rightarrow> jsval" where
  "to_number sign m =
     (if 1024 < bitlen (round_double m) then (if sign < 0 then JNegInfinity else JInfinity)
      else JNum (sign * int (round_double m)))"

text \<open>
  \<^verbatim>\<open>parseInt(inputString)\<close> with no radix: leading white space is skipped, a sign is read,
  a \<^verbatim>\<open>0x\<close> prefix selects radix 16, and the longest run of digits is read as an integer
  (\<open>parseInt_digits\<close>: the sign and that integer, \<open>None\<close> when there is no digit). The result
  is that integer as a double, and \<^verbatim>\<open>NaN\<close> when there is no digit. Minus zero is \<open>JNum 0\<close>:
  both are falsy.
\<close>

definition parseInt_digits :: "jsstring \<Rightarrow> (int \<times> int) option" where
  "parseInt_digits inputString =
     (let S = dropWhile js_whitespace inputString;
          sign = (if take 1 S = js ''-'' then - 1 else 1);
          S = (if take 1 S = js ''+'' \<or> take 1 S = js ''-'' then drop 1 S else S);
          stripPrefix = (take 2 S = js ''0x'' \<or> take 2 S = js ''0X'');
          R = (if stripPrefix then 16 else 10);
          S = (if stripPrefix then drop 2 S else S);
          Z = takeWhile (\<lambda>c. digit_value R c \<noteq> None) S
      in if Z = [] then None
         else Some (sign, foldl (\<lambda>n c. n * int R + int (the (digit_value R c))) 0 Z))"

definition parseInt :: "jsstring \<Rightarrow> jsval" where
  "parseInt inputString =
     (case parseInt_digits inputString of
        None \<Rightarrow> JNaN
      | Some (sign, mathInt) \<Rightarrow> to_number sign (nat mathInt))"

text \<open>The argument of \<^verbatim>\<open>parseInt\<close> is first turned into a string: \<^verbatim>\<open>undefined\<close> is its name.\<close>

definition to_string :: "jsstring option \<Rightarrow> jsstring" where
  "to_string v = (case v of None \<Rightarrow> js ''undefined'' | Some s \<Rightarrow> s)"

text \<open>A number in a template literal: its decimal digits.\<close>

fun show_nat :: "nat \<Rightarrow> jsstring" where
  "show_nat n = (if n < 10 then [0x30 + of_nat n] else show_nat (n div 10) @ [0x30 + of_nat (n mod 10)])"

declare show_nat.simps [simp del]

definition show_int :: "int \<Rightarrow> jsstring" where
  "show_int n = (if n < 0 then js ''-'' @ show_nat (nat (- n)) else show_nat (nat n))"


section \<open>Discovery\<close>

text \<open>
  The objects the strategies build, \<^verbatim>\<open>{host, port, name, type}\<close>. The port and the name of
  a broadcast reply are whatever values the reply carries.
\<close>

record endpoint =
  host :: jsstring
  port :: jsval
  name :: jsval
  type :: jsstring

text \<open>
  \<^verbatim>\<open>testConnection(host, port)\<close> resolves with an endpoint when the connect succeeds within
  its 1000 ms, and with \<^verbatim>\<open>null\<close> otherwise; \<open>accepts\<close> is the network: the addresses that
  accept a connection in time.
\<close>

definition testConnection :: "(jsstring \<Rightarrow> int \<Rightarrow> bool) \<Rightarrow> jsstring \<Rightarrow> int \<Rightarrow> endpoint option" where
  "testConnection accepts h p =
     (if accepts h p then
        Some \<lparr>host = h, port = JNum p,
              name = JStr (js ''Printer-'' @ h @ js '':'' @ show_int p),
              type = js ''tcp''\<rparr>
      else None)"

text \<open>The results of \<^verbatim>\<open>Promise.allSettled\<close> that are fulfilled with a value that is not \<^verbatim>\<open>null\<close>.\<close>

definition fulfilled_values :: "'a option list \<Rightarrow> 'a list" where
  "fulfilled_values results = concat (map (\<lambda>r. case r of None \<Rightarrow> [] | Some v \<Rightarrow> [v]) results)"

definition commonPorts :: "int list" where
  "commonPorts = [9100, 9101, 9102, 8080, 8008, 631]"

definition discoverByPortScan :: "(jsstring \<Rightarrow> int \<Rightarrow> bool) \<Rightarrow> jsstring \<Rightarrow> endpoint list" where
  "discoverByPortScan accepts primaryIP =
     (let subnet = js_join (js ''.'') (take 3 (js_split 0x2E primaryIP));
          scanPromises =
            concat (map (\<lambda>i. map (\<lambda>p. testConnection accepts (subnet @ js ''.'' @ show_nat i) p)
                                 commonPorts)
                        [1 ..< 255])
      in fulfilled_values scanPromises)"

definition commonAddresses :: "jsstring list" where
  "commonAddresses =
     [js ''192.168.1.100:9100'', js ''192.168.1.200:9100'', js ''192.168.0.100:9100'',
      js ''192.168.178.54:9100'', js ''10.0.0.100:9100'']"

text \<open>
  \<^verbatim>\<open>const [host, port] = address.split(':')\<close>: the first two pieces, the second
  \<^verbatim>\<open>undefined\<close> (\<open>None\<close>) when there is no separator.
\<close>

definition split_address :: "jsstring \<Rightarrow> jsstring \<times> jsstring option" where
  "split_address address =
     (case js_split 0x3A address of
        [] \<Rightarrow> ([], None)
      | [h] \<Rightarrow> (h, None)
      | h # p # rest \<Rightarrow> (h, Some p))"

text \<open>
  \<^verbatim>\<open>testConnection(host, parseInt(port))\<close> for each address of the list, in its order.
  Every port of the list parses to an integer, so the other branch of \<^verbatim>\<open>parseInt\<close> is never
  taken for it.
\<close>

definition discoverByCommonAddresses :: "(jsstring \<Rightarrow> int \<Rightarrow> bool) \<Rightarrow> endpoint list" where
  "discoverByCommonAddresses accepts =
     fulfilled_values
       (map (\<lambda>address.
               (case split_address address of
                  (h, p) \<Rightarrow> (case parseInt (to_string p) of
                                JNum n \<Rightarrow> testConnection accepts h n
                              | _ \<Rightarrow> None)))
            commonAddresses)"

text \<open>
  A datagram received during the listening window: its text (\<^verbatim>\<open>msg.toString()\<close>), what
  \<^verbatim>\<open>JSON.parse\<close> makes of that text (\<open>None\<close> when it throws), and the address it came from
  (\<^verbatim>\<open>rinfo.address\<close>).
\<close>

record reply =
  msg :: jsstring
  parsed :: "jsval option"
  address :: jsstring

text \<open>
  The \<^verbatim>\<open>message\<close> handler of the agent's \<^verbatim>\<open>discoverByBroadcast\<close>. The \<^verbatim>\<open>catch\<close> block is
  empty (``Ignore non-JSON responses''): a reply that does not parse, or whose parsed value
  has no properties to read, leaves \<^verbatim>\<open>printers\<close> as it is.
\<close>

definition broadcast_on_message :: "endpoint list \<Rightarrow> reply \<Rightarrow> endpoint list" where
  "broadcast_on_message printers r =
     (case parsed r of
        None \<Rightarrow> printers
      | Some response \<Rightarrow>
          (case get_prop response (js ''type'') of
             None \<Rightarrow> printers
           | Some t \<Rightarrow>
               if t = JStr (js ''printer'') then
                 printers @
                   [\<lparr>host = address r,
                     port = or_else (the (get_prop response (js ''port''))) (JNum 9100),
                     name = or_else (the (get_prop response (js ''name'')))
                                    (JStr (js ''Printer-'' @ address r)),
                     type = js ''discovered''\<rparr>]
               else printers))"

text \<open>
  The agent's broadcast strategy resolves, when its 2000 ms window closes, with what the
  handler collected from the replies received in it, in their order. A socket error, on
  which the strategy resolves with the empty list instead, is not part of the model.
\<close>

definition discoverByBroadcast :: "reply list \<Rightarrow> endpoint list" where
  "discoverByBroadcast replies = foldl broadcast_on_message [] replies"

text \<open>
  The \<^verbatim>\<open>message\<close> handler of \<^verbatim>\<open>discoverByBroadcast\<close> in the test tool
  (\<^verbatim>\<open>test-printer.js\<close>): its \<^verbatim>\<open>catch\<close> block looks for a plain-text marker.
\<close>

definition test_tool_catch :: "endpoint list \<Rightarrow> reply \<Rightarrow> endpoint list" where
  "test_tool_catch printers r =
     (let msgStr = trim (msg r)
      in if js_includes msgStr (js ''PRINTER'') \<or> js_includes msgStr (js ''ESC'') then
           printers @
             [\<lparr>host = address r, port = JNum 9100,
               name = JStr (js ''Printer-'' @ address r),
               type = js ''broadcast_simple''\<rparr>]
         else printers)"

definition test_tool_broadcast_on_message :: "endpoint list \<Rightarrow> reply \<Rightarrow> endpoint list" where
  "test_tool_broadcast_on_message printers r =
     (case parsed r of
        None \<Rightarrow> test_tool_catch printers r
      | Some response \<Rightarrow>
          (case get_prop response (js ''type'') of
             None \<Rightarrow> test_tool_catch printers r
           | Some t \<Rightarrow>
               if t = JStr (js ''printer'') then
                 printers @
                   [\<lparr>host = address r,
                     port = or_else (the (get_prop response (js ''port''))) (JNum 9100),
                     name = or_else (the (get_prop response (js ''name'')))
                                    (JStr (js ''Printer-'' @ address r)),
                     type = js ''broadcast''\<rparr>]
               else printers))"

definition test_tool_discoverByBroadcast :: "reply list \<Rightarrow> endpoint list" where
  "test_tool_discoverByBroadcast replies = foldl test_tool_broadcast_on_message [] replies"

text \<open>
  \<^verbatim>\<open>printers.add(JSON.stringify(printer))\<close> on a \<^verbatim>\<open>Set\<close>, which keeps insertion order. The
  four keys are written in the same order by every strategy, so two endpoints have the same
  JSON text exactly when all four props agree, and \<^verbatim>\<open>JSON.parse\<close> gives the endpoint back:
  the set of texts is kept as the list of the distinct endpoints.
\<close>

definition set_add :: "'a list \<Rightarrow> 'a \<Rightarrow> 'a list" where
  "set_add printers p = (if p \<in> set printers then printers else printers @ [p])"

text \<open>A settled promise of \<^verbatim>\<open>Promise.allSettled\<close>.\<close>

datatype 'a settled = Fulfilled 'a | Rejected

text \<open>
  \<^verbatim>\<open>discoverPrinters\<close>, from the settled results of the three strategies, in the order
  port scan, broadcast, common addresses.
\<close>

definition discoverPrinters ::
  "endpoint list settled \<Rightarrow> endpoint list settled \<Rightarrow> endpoint list settled \<Rightarrow> endpoint list" where
  "discoverPrinters byPortScan byBroadcast byCommonAddresses =
     (let discoveries = [byPortScan, byBroadcast, byCommonAddresses];
          printers =
            foldl (\<lambda>printers result.
                     (case result of
                        Fulfilled v \<Rightarrow> foldl set_add printers v
                      | Rejected \<Rightarrow> printers))
                  [] discoveries;
          uniquePrinters = printers
      in uniquePrinters)"


section \<open>Dispatch: \<^verbatim>\<open>printWithProtocol\<close>\<close>

text \<open>
  The two fields of \<^verbatim>\<open>CONFIG\<close> that dispatch reads, with their values when neither the
  environment nor \<^verbatim>\<open>config.json\<close> nor \<^verbatim>\<open>POST /api/config\<close> has changed them.
\<close>

record config =
  defaultPrinterHost :: jsstring
  printerDiscoveryTimeout :: int

definition CONFIG :: config where
  "CONFIG = \<lparr>defaultPrinterHost = js ''192.168.2.38:9100'', printerDiscoveryTimeout = 5000\<rparr>"

text \<open>\<^verbatim>\<open>new Error(message)\<close>.\<close>

datatype error = Error jsstring

text \<open>
  The first statement of \<^verbatim>\<open>printWithProtocol\<close>: the printer of the request when it has a
  truthy \<^verbatim>\<open>host\<close>, the configured default otherwise.
\<close>

definition printerConfig :: "config \<Rightarrow> jsval \<Rightarrow> jsval" where
  "printerConfig cfg printer =
     (if truthy printer \<and> (case get_prop printer (js ''host'') of None \<Rightarrow> False | Some v \<Rightarrow> truthy v)
      then printer
      else
        (case split_address (defaultPrinterHost cfg) of
           (h, p) \<Rightarrow>
             JObj [(js ''host'', or_else (JStr h) (JStr (js ''localhost''))),
                   (js ''port'', or_else (parseInt (to_string p)) (JNum 9100)),
                   (js ''name'', JStr (js ''system-default''))]))"

text \<open>
  A transport client, \<^verbatim>\<open>(data, printer, format)\<close>: it acts on the network \<open>'w\<close> and has an
  outcome \<open>'a\<close>. \<^verbatim>\<open>printWithProtocol\<close> calls the three clients as methods of the agent; here
  they are its first three arguments, so that a statement about it holds for every client.
  The result is \<open>Inl\<close> for the error it throws itself and \<open>Inr\<close> for the outcome of the client
  it returns. Its \<^verbatim>\<open>console.log\<close> line is not modelled.
\<close>

type_synonym ('w, 'a) client = "jsstring \<Rightarrow> jsval \<Rightarrow> jsstring \<Rightarrow> 'w \<Rightarrow> 'a \<times> 'w"

definition delegate :: "'a \<times> 'w \<Rightarrow> (error + 'a) \<times> 'w" where
  "delegate outcome = (case outcome of (r, w') \<Rightarrow> (Inr r, w'))"

definition printWithProtocol ::
  "('w, 'a) client \<Rightarrow> ('w, 'a) client \<Rightarrow> ('w, 'a) client \<Rightarrow>
   config \<Rightarrow> jsstring \<Rightarrow> jsval \<Rightarrow> jsstring \<Rightarrow> jsstring \<Rightarrow> 'w \<Rightarrow> (error + 'a) \<times> 'w" where
  "printWithProtocol viaWebSocket viaRawTCP viaHTTP cfg data printer protocol format w =
     (let pc = printerConfig cfg printer;
          selector = toLowerCase protocol
      in if selector = js ''websocket'' then delegate (viaWebSocket data pc format w)
         else if selector = js ''raw'' \<or> selector = js ''tcp'' then delegate (viaRawTCP data pc format w)
         else if selector = js ''http'' then delegate (viaHTTP data pc format w)
         else (Inl (Error (js ''Unsupported protocol: '' @ protocol)), w))"

section \<open>The stream client: \<^verbatim>\<open>printViaRawTCP\<close>\<close>

text \<open>
  The success object without its \<^verbatim>\<open>message\<close> and \<^verbatim>\<open>timestamp\<close> texts, which no property
  below reads; \<open>method_name\<close> is its field \<^verbatim>\<open>method\<close>.
\<close>

record dispatch_result =
  success :: bool
  method_name :: jsstring

text \<open>What the client does to its socket, and the events the socket delivers to it.\<close>

datatype net_action =
    SocketConnect jsval jsval
  | SocketWrite jsstring
  | SocketEnd
  | SocketDestroy


text \<open>
  The promise of one call: how it is settled and when (in ms since the call), whether the
  timer set by \<^verbatim>\<open>setTimeout\<close> is still armed, and the socket actions so far.
\<close>

record tcp_call =
  settled :: "(error + dispatch_result) option"
  settled_at :: nat
  timer_armed :: bool
  actions :: "net_action list"














text \<open>
  \<^verbatim>\<open>setTimeout(callback, ms)\<close> waits \<open>ms\<close> milliseconds, and one millisecond when \<open>ms\<close> is
  below 1 or above \<open>2^31 - 1\<close>.
\<close>

definition setTimeout_delay :: "int \<Rightarrow> nat" where
  "setTimeout_delay ms = (if ms < 1 \<or> 2147483647 < ms then 1 else nat ms)"

text \<open>The delay of the timer of a call: \<^verbatim>\<open>setTimeout(..., CONFIG.printerDiscoveryTimeout)\<close>.\<close>

definition connect_delay :: "config \<Rightarrow> nat" where
  "connect_delay cfg = setTimeout_delay (printerDiscoveryTimeout cfg)"





section \<open>Properties of the encoder\<close>

text \<open>\<^const>\<open>js_includes\<close> is the contiguous-sublist relation.\<close>

lemma js_includes_sublist: "js_includes s pat = sublist pat s"
  by (induction s) (simp_all add: sublist_Cons_right)

text \<open>The loop over the lines appends, line by line, what each line emits on its own.\<close>

lemma emit_line_append: "emit_line commands line = commands @ emit_line [] line"
  by (simp add: emit_line_def)

lemma foldl_emit_line:
  "foldl emit_line commands lines = commands @ concat (map (emit_line []) lines)"
proof (induction lines arbitrary: commands)
  case Nil
  then show ?case by simp
next
  case (Cons l ls)
  have "foldl emit_line commands (l # ls) = foldl emit_line (emit_line commands l) ls"
    by simp
  also have "\<dots> = emit_line commands l @ concat (map (emit_line []) ls)"
    by (rule Cons.IH)
  also have "\<dots> = commands @ emit_line [] l @ concat (map (emit_line []) ls)"
    by (subst emit_line_append) simp
  finally show ?case by simp
qed

lemma convertToESCPOS_lines:
  "convertToESCPOS text =
     init_codes @ concat (map (emit_line []) (js_split nl (substitute text))) @ cut_code"
  by (simp add: convertToESCPOS_def init_codes_def cut_code_def foldl_emit_line Let_def)

lemma init_codes_bytes: "init_codes = [0x1B, 0x40, 0x1B, 0x74, 0x12, 0x1B, 0x52, 0x12]"
  by (simp add: init_codes_def ESC_def js_def)

lemma cut_code_bytes: "cut_code = [0x1D, 0x56, 0x00]"
  by (simp add: cut_code_def GS_def js_def)

text \<open>
  C3. Whatever the text, the output of the encoder is the three opening codes
  (\<open>ESC @\<close>, \<open>ESC t 0x12\<close>, \<open>ESC R 0x12\<close>), then what the lines emit, then the paper-cut
  code \<open>GS V 0x00\<close>: it starts with the former and ends with the latter.
\<close>

theorem encoder_frame:
  "\<exists>body. convertToESCPOS text =
     [0x1B, 0x40, 0x1B, 0x74, 0x12, 0x1B, 0x52, 0x12] @ body @ [0x1D, 0x56, 0x00]"
  unfolding convertToESCPOS_lines init_codes_bytes cut_code_bytes by blast

text \<open>Splitting the empty string gives one empty line, which emits a line feed.\<close>

lemma substitute_Nil: "substitute [] = []"
  by (simp add: substitute_def turkishMap_def replace_all_def)

lemma convertToESCPOS_Nil:
  "convertToESCPOS [] = [0x1B, 0x40, 0x1B, 0x74, 0x12, 0x1B, 0x52, 0x12, 0x0A, 0x1D, 0x56, 0x00]"
  by (simp add: convertToESCPOS_lines substitute_Nil emit_line_def init_codes_bytes cut_code_bytes
      nl_def js_def)

text \<open>
  C2, as stated, fails: the output for the empty string is not the four structural codes
  alone.
\<close>

theorem encoder_empty_not_bare:
  "convertToESCPOS [] \<noteq> init_codes @ cut_code"
  by (simp add: convertToESCPOS_Nil init_codes_bytes cut_code_bytes)

text \<open>
  C2, amended: the output for the empty string is the three opening codes, one line feed
  (the one empty line of the empty string) and the paper-cut code.
\<close>

theorem encoder_empty:
  "convertToESCPOS [] = init_codes @ [nl] @ cut_code"
  by (simp add: convertToESCPOS_Nil init_codes_bytes cut_code_bytes nl_def)

text \<open>
  C4. What a line emits is decided by the first pattern, in the order title, total, rule,
  that occurs in it: the line is bracketed by the codes of that pattern alone, whatever other
  patterns it holds, and a line with no pattern is emitted as it is, followed by its line
  feed.
\<close>

theorem first_match_wins:
  "emit_line commands line =
     commands @ (case first_match line of None \<Rightarrow> line @ [nl] | Some p \<Rightarrow> bracket p line)"
  by (simp add: emit_line_def first_match_def classification_patterns_def bracket_def)

text \<open>A line that holds all three patterns, the title last, gets the title codes only.\<close>

theorem first_match_wins_witness:
  "emit_line [] (js ''TOPLAM: === ISTANBUL RESTAURANT'') =
     [0x1B, 0x61, 0x01, 0x1B, 0x45, 0x01, 0x1D, 0x21, 0x11] @ js ''TOPLAM: === ISTANBUL RESTAURANT''
       @ [0x0A] @ [0x1B, 0x45, 0x00, 0x1D, 0x21, 0x00]"
proof -
  have "first_match (js ''TOPLAM: === ISTANBUL RESTAURANT'') = Some (hd classification_patterns)"
    by (simp add: first_match_def classification_patterns_def js_def)
  then show ?thesis
    using first_match_wins [of "[]" "js ''TOPLAM: === ISTANBUL RESTAURANT''"]
    by (simp add: classification_patterns_def bracket_def ESC_def GS_def nl_def js_def)
qed

section \<open>Properties of discovery\<close>

text \<open>What \<^const>\<open>discoverPrinters\<close> does guarantee: no endpoint object occurs twice.\<close>

lemma distinct_set_add: "distinct printers \<Longrightarrow> distinct (set_add printers p)"
  by (simp add: set_add_def)

lemma distinct_foldl_set_add: "distinct printers \<Longrightarrow> distinct (foldl set_add printers v)"
  by (induction v arbitrary: printers) (simp_all add: distinct_set_add)

lemma discoverPrinters_distinct: "distinct (discoverPrinters a b c)"
  by (cases a; cases b; cases c) (simp_all add: discoverPrinters_def distinct_foldl_set_add)

text \<open>Decimal digits determine the number, so each probed host of a scan is a different text.\<close>

lemma digit_inj:
  assumes "k < 10" and "l < 10" and "(0x30 + of_nat k :: jschar) = 0x30 + of_nat l"
  shows "k = l"
proof -
  from assms(3) have "(of_nat k :: jschar) = of_nat l" by simp
  then have "take_bit 16 k = take_bit 16 l"
    by (simp add: word_of_nat_eq_iff)
  moreover have "k < 2 ^ 16" "l < 2 ^ 16" using assms(1,2) by simp_all
  ultimately show ?thesis by (simp add: take_bit_nat_eq_self)
qed

lemma show_nat_not_Nil: "show_nat n \<noteq> []"
  by (subst show_nat.simps) simp

lemma show_nat_inj: "show_nat m = show_nat n \<Longrightarrow> m = n"
proof (induction m arbitrary: n rule: show_nat.induct)
  case (1 m)
  show ?case
  proof (cases "m < 10")
    case small_m: True
    show ?thesis
    proof (cases "n < 10")
      case True
      with small_m "1.prems" have "(0x30 + of_nat m :: jschar) = 0x30 + of_nat n"
        by (subst (asm) show_nat.simps, subst (asm) (2) show_nat.simps) simp
      with small_m True show ?thesis by (rule digit_inj)
    next
      case False
      with small_m "1.prems" have "[0x30 + of_nat m] = show_nat (n div 10) @ [0x30 + of_nat (n mod 10)]"
        by (subst (asm) show_nat.simps, subst (asm) (2) show_nat.simps) simp
      then have "show_nat (n div 10) = []" by simp
      then show ?thesis by (simp add: show_nat_not_Nil)
    qed
  next
    case big_m: False
    show ?thesis
    proof (cases "n < 10")
      case True
      with big_m "1.prems" have "show_nat (m div 10) @ [0x30 + of_nat (m mod 10)] = [0x30 + of_nat n]"
        by (subst (asm) show_nat.simps, subst (asm) (2) show_nat.simps) simp
      then have "show_nat (m div 10) = []" by simp
      then show ?thesis by (simp add: show_nat_not_Nil)
    next
      case False
      with big_m "1.prems" have eq: "show_nat (m div 10) @ [0x30 + of_nat (m mod 10)] =
          show_nat (n div 10) @ [0x30 + of_nat (n mod 10 :: nat) :: jschar]"
        by (subst (asm) show_nat.simps, subst (asm) (2) show_nat.simps) simp
      then have "show_nat (m div 10) = show_nat (n div 10)" by simp
      with big_m have d: "m div 10 = n div 10" by (rule "1.IH")
      from eq have deq: "(0x30 + of_nat (m mod 10) :: jschar) = 0x30 + of_nat (n mod 10)" by simp
      have r: "m mod 10 = n mod 10" by (rule digit_inj [OF _ _ deq]) simp_all
      have "m = (m div 10) * 10 + m mod 10" by simp
      also have "\<dots> = (n div 10) * 10 + n mod 10" by (simp only: d r)
      also have "\<dots> = n" by simp
      finally show ?thesis .
    qed
  qed
qed

lemma concat_single_hit:
  "distinct xs \<Longrightarrow> k \<in> set xs \<Longrightarrow> concat (map (\<lambda>i. if i = k then ys else []) xs) = ys"
proof (induction xs)
  case Nil
  then show ?case by simp
next
  case (Cons x xs)
  show ?case
  proof (cases "x = k")
    case True
    with Cons.prems have "k \<notin> set xs" by simp
    then have "concat (map (\<lambda>i. if i = k then ys else []) xs) = []"
      by (induction xs) auto
    with True show ?thesis by simp
  next
    case False
    with Cons show ?thesis by simp
  qed
qed

lemma fulfilled_values_concat:
  "fulfilled_values (concat xss) = concat (map fulfilled_values xss)"
  by (induction xss) (simp_all add: fulfilled_values_def)

text \<open>
  A printer at 192.168.1.100 that accepts connections on port 9100 and answers the
  broadcast with \<^verbatim>\<open>{"type":"printer"}\<close>, and an agent at 192.168.1.5: what each strategy
  finds.
\<close>

lemma parseInt_9100: "parseInt (js ''9100'') = JNum 9100"
proof -
  have "parseInt_digits (js ''9100'') = Some (1, 9100)" by code_simp
  moreover have "bitlen 9100 \<le> 53" by (simp add: bitlen.simps)
  moreover have "\<not> 1024 < bitlen 9100" by (simp add: bitlen.simps)
  ultimately show ?thesis by (simp add: parseInt_def to_number_def round_double_def)
qed

lemma split_commonAddresses:
  "map split_address commonAddresses =
     [(js ''192.168.1.100'', Some (js ''9100'')), (js ''192.168.1.200'', Some (js ''9100'')),
      (js ''192.168.0.100'', Some (js ''9100'')), (js ''192.168.178.54'', Some (js ''9100'')),
      (js ''10.0.0.100'', Some (js ''9100''))]"
  by (simp add: commonAddresses_def split_address_def js_def)

lemma found_by_port_scan:
  "discoverByPortScan (\<lambda>h p. h = js ''192.168.1.100'' \<and> p = 9100) (js ''192.168.1.5'') =
     [\<lparr>host = js ''192.168.1.100'', port = JNum 9100,
       name = JStr (js ''Printer-192.168.1.100:9100''), type = js ''tcp''\<rparr>]"
proof -
  let ?accepts = "\<lambda>h p. h = js ''192.168.1.100'' \<and> p = (9100::int)"
  let ?e = "\<lparr>host = js ''192.168.1.100'', port = JNum 9100,
       name = JStr (js ''Printer-192.168.1.100:9100''), type = js ''tcp''\<rparr>"
  have subnet: "js_join (js ''.'') (take 3 (js_split 0x2E (js ''192.168.1.5''))) = js ''192.168.1''"
    by (simp add: js_def)
  have target: "js ''192.168.1.100'' = js ''192.168.1'' @ js ''.'' @ show_nat 100"
    by (simp add: show_nat.simps js_def)
  have hit: "fulfilled_values (map (testConnection ?accepts (js ''192.168.1'' @ js ''.'' @ show_nat 100)) commonPorts) = [?e]"
    unfolding target [symmetric]
    by (simp add: commonPorts_def fulfilled_values_def testConnection_def show_int_def show_nat.simps js_def)
  have miss: "fulfilled_values (map (testConnection ?accepts (js ''192.168.1'' @ js ''.'' @ show_nat i)) commonPorts) = []"
    if "i \<noteq> 100" for i
  proof -
    from that have "show_nat i \<noteq> show_nat 100"
      using show_nat_inj by blast
    then have "js ''192.168.1'' @ js ''.'' @ show_nat i \<noteq> js ''192.168.1.100''"
      unfolding target by simp
    then show ?thesis
      by (simp add: commonPorts_def fulfilled_values_def testConnection_def)
  qed
  have row: "fulfilled_values (map (testConnection ?accepts (js ''192.168.1'' @ js ''.'' @ show_nat i)) commonPorts)
      = (if i = 100 then [?e] else [])" for i
    using hit miss by simp
  have "discoverByPortScan ?accepts (js ''192.168.1.5'') =
      concat (map (\<lambda>i. if i = 100 then [?e] else []) [1 ..< 255])"
    by (simp add: discoverByPortScan_def subnet fulfilled_values_concat comp_def row)
  also have "\<dots> = [?e]"
    by (rule concat_single_hit) simp_all
  finally show ?thesis .
qed

lemma found_by_common_addresses:
  "discoverByCommonAddresses (\<lambda>h p. h = js ''192.168.1.100'' \<and> p = 9100) =
     [\<lparr>host = js ''192.168.1.100'', port = JNum 9100,
       name = JStr (js ''Printer-192.168.1.100:9100''), type = js ''tcp''\<rparr>]"
proof -
  have "discoverByCommonAddresses (\<lambda>h p. h = js ''192.168.1.100'' \<and> p = 9100) =
      fulfilled_values
        (map (\<lambda>(h, p). case parseInt (to_string p) of
                          JNum n \<Rightarrow> testConnection (\<lambda>h p. h = js ''192.168.1.100'' \<and> p = 9100) h n
                        | _ \<Rightarrow> None)
             (map split_address commonAddresses))"
    by (simp add: discoverByCommonAddresses_def comp_def)
  also have "\<dots> =
      [\<lparr>host = js ''192.168.1.100'', port = JNum 9100,
        name = JStr (js ''Printer-192.168.1.100:9100''), type = js ''tcp''\<rparr>]"
    unfolding split_commonAddresses
    by (simp add: to_string_def parseInt_9100 fulfilled_values_def)
       (simp add: testConnection_def show_int_def show_nat.simps js_def)
  finally show ?thesis .
qed

lemma found_by_broadcast:
  \<open>discoverByBroadcast
     [\<lparr>msg = js ''{"type":"printer"}'',
       parsed = Some (JObj [(js ''type'', JStr (js ''printer''))]),
       address = js ''192.168.1.100''\<rparr>] =
     [\<lparr>host = js ''192.168.1.100'', port = JNum 9100,
       name = JStr (js ''Printer-192.168.1.100''), type = js ''discovered''\<rparr>]\<close>
  by (simp add: discoverByBroadcast_def broadcast_on_message_def or_else_def js_def)

text \<open>
  C1 does not hold of \<^const>\<open>discoverPrinters\<close>: the set is keyed on the whole object, and the
  broadcast strategy names and tags its endpoint differently from the connect probes. For
  the printer above the port scan, the broadcast and the common addresses all find
  192.168.1.100:9100; the two connect results collapse, the broadcast one stays, and the
  result holds the address twice.
\<close>

theorem discoverPrinters_same_address_twice:
  \<open>discoverPrinters
     (Fulfilled (discoverByPortScan (\<lambda>h p. h = js ''192.168.1.100'' \<and> p = 9100) (js ''192.168.1.5'')))
     (Fulfilled (discoverByBroadcast
        [\<lparr>msg = js ''{"type":"printer"}'',
          parsed = Some (JObj [(js ''type'', JStr (js ''printer''))]),
          address = js ''192.168.1.100''\<rparr>]))
     (Fulfilled (discoverByCommonAddresses (\<lambda>h p. h = js ''192.168.1.100'' \<and> p = 9100)))
   = [\<lparr>host = js ''192.168.1.100'', port = JNum 9100,
        name = JStr (js ''Printer-192.168.1.100:9100''), type = js ''tcp''\<rparr>,
      \<lparr>host = js ''192.168.1.100'', port = JNum 9100,
        name = JStr (js ''Printer-192.168.1.100''), type = js ''discovered''\<rparr>]\<close>
  unfolding found_by_port_scan found_by_broadcast found_by_common_addresses
  by (simp add: discoverPrinters_def set_add_def js_def)

text \<open>The handler only ever appends to \<^verbatim>\<open>printers\<close>.\<close>

lemma broadcast_on_message_printer:
  assumes "parsed r = Some (JObj props)"
    and "map_of props (js ''type'') = Some (JStr (js ''printer''))"
  shows "broadcast_on_message printers r =
     printers @
       [\<lparr>host = address r,
         port = or_else (case map_of props (js ''port'') of None \<Rightarrow> JUndefined | Some v \<Rightarrow> v) (JNum 9100),
         name = or_else (case map_of props (js ''name'') of None \<Rightarrow> JUndefined | Some v \<Rightarrow> v)
                        (JStr (js ''Printer-'' @ address r)),
         type = js ''discovered''\<rparr>]"
  using assms by (simp add: broadcast_on_message_def split: option.splits)

lemma broadcast_on_message_grows: "set printers \<subseteq> set (broadcast_on_message printers r)"
  by (auto simp: broadcast_on_message_def split: option.splits)

lemma foldl_broadcast_grows: "set printers \<subseteq> set (foldl broadcast_on_message printers rs)"
proof (induction rs arbitrary: printers)
  case Nil
  then show ?case by simp
next
  case (Cons r rs)
  have "set printers \<subseteq> set (broadcast_on_message printers r)"
    by (rule broadcast_on_message_grows)
  also have "\<dots> \<subseteq> set (foldl broadcast_on_message (broadcast_on_message printers r) rs)"
    by (rule Cons.IH)
  finally show ?case by simp
qed

lemma foldl_broadcast_member:
  assumes "r \<in> set rs" and "\<And>printers'. broadcast_on_message printers' r = printers' @ [e]"
  shows "e \<in> set (foldl broadcast_on_message printers rs)"
  using assms(1)
proof (induction rs arbitrary: printers)
  case Nil
  then show ?case by simp
next
  case (Cons a rs)
  show ?case
  proof (cases "a = r")
    case True
    have "e \<in> set (broadcast_on_message printers r)"
      by (simp add: assms(2))
    then show ?thesis
      using foldl_broadcast_grows [of "broadcast_on_message printers r" rs] True by auto
  next
    case False
    with Cons.prems have "r \<in> set rs" by simp
    then show ?thesis using Cons.IH by simp
  qed
qed

text \<open>
  C10. A reply that parses as an object whose \<^verbatim>\<open>type\<close> is \<^verbatim>\<open>'printer'\<close> makes the handler
  append one endpoint, which is in the result of the strategy; its host is the address the
  reply came from; if the object has no \<^verbatim>\<open>port\<close> its port is 9100, and if it has no \<^verbatim>\<open>name\<close>
  its name is \<^verbatim>\<open>Printer-\<close> followed by that address.
\<close>

theorem broadcast_reply_defaults:
  assumes "r \<in> set replies"
    and "parsed r = Some (JObj props)"
    and "map_of props (js ''type'') = Some (JStr (js ''printer''))"
  shows "\<exists>e. (\<forall>printers. broadcast_on_message printers r = printers @ [e])
           \<and> e \<in> set (discoverByBroadcast replies)
           \<and> host e = address r
           \<and> (map_of props (js ''port'') = None \<longrightarrow> port e = JNum 9100)
           \<and> (map_of props (js ''name'') = None \<longrightarrow> name e = JStr (js ''Printer-'' @ address r))"
proof -
  let ?e = "\<lparr>host = address r,
         port = or_else (case map_of props (js ''port'') of None \<Rightarrow> JUndefined | Some v \<Rightarrow> v) (JNum 9100),
         name = or_else (case map_of props (js ''name'') of None \<Rightarrow> JUndefined | Some v \<Rightarrow> v)
                        (JStr (js ''Printer-'' @ address r)),
         type = js ''discovered''\<rparr>"
  have step: "broadcast_on_message printers r = printers @ [?e]" for printers
    by (rule broadcast_on_message_printer [OF assms(2,3)])
  have "?e \<in> set (discoverByBroadcast replies)"
    unfolding discoverByBroadcast_def by (rule foldl_broadcast_member [OF assms(1) step])
  moreover have "map_of props (js ''port'') = None \<longrightarrow> port ?e = JNum 9100"
    by (simp add: or_else_def)
  moreover have "map_of props (js ''name'') = None \<longrightarrow> name ?e = JStr (js ''Printer-'' @ address r)"
    by (simp add: or_else_def)
  ultimately show ?thesis using step by (intro exI [of _ ?e]) simp
qed

text \<open>A reply that carries the marker and nothing else.\<close>

theorem broadcast_reply_defaults_witness:
  \<open>\<exists>e. (\<forall>printers. broadcast_on_message printers
             \<lparr>msg = js ''{"type":"printer"}'',
              parsed = Some (JObj [(js ''type'', JStr (js ''printer''))]),
              address = js ''192.168.1.77''\<rparr> = printers @ [e])
       \<and> e \<in> set (discoverByBroadcast
             [\<lparr>msg = js ''{"type":"printer"}'',
               parsed = Some (JObj [(js ''type'', JStr (js ''printer''))]),
               address = js ''192.168.1.77''\<rparr>])
       \<and> host e = js ''192.168.1.77''
       \<and> port e = JNum 9100
       \<and> name e = JStr (js ''Printer-192.168.1.77'')\<close>
proof -
  let ?r = \<open>\<lparr>msg = js ''{"type":"printer"}'',
              parsed = Some (JObj [(js ''type'', JStr (js ''printer''))]),
              address = js ''192.168.1.77''\<rparr>\<close>
  have 1: "?r \<in> set [?r]" by simp
  have 2: "parsed ?r = Some (JObj [(js ''type'', JStr (js ''printer''))])" by simp
  have 3: "map_of [(js ''type'', JStr (js ''printer''))] (js ''type'') = Some (JStr (js ''printer''))"
    by simp
  have 4: "map_of [(js ''type'', JStr (js ''printer''))] (js ''port'') = None"
    by (simp add: js_def)
  have 5: "map_of [(js ''type'', JStr (js ''printer''))] (js ''name'') = None"
    by (simp add: js_def)
  have 6: "js ''Printer-'' @ js ''192.168.1.77'' = js ''Printer-192.168.1.77''"
    by (simp add: js_def)
  from broadcast_reply_defaults [OF 1 2 3] 4 5 6 show ?thesis
    by simp
qed

text \<open>
  C5, as stated, fails for the agent: a reply that is no JSON and reads \<^verbatim>\<open>PRINTER\<close> is
  dropped by the empty \<^verbatim>\<open>catch\<close> block, and the strategy resolves with nothing.
\<close>

theorem agent_ignores_plain_text_reply:
  "discoverByBroadcast [\<lparr>msg = js ''PRINTER'', parsed = None, address = js ''192.168.1.50''\<rparr>] = []"
  by (simp add: discoverByBroadcast_def broadcast_on_message_def)

text \<open>
  C5, amended: the agent's broadcast handler ignores every reply that fails to parse,
  marker or not; it is the handler of the test tool that accepts such a reply when its
  trimmed text holds \<^verbatim>\<open>PRINTER\<close> or \<^verbatim>\<open>ESC\<close>, as an endpoint of type \<^verbatim>\<open>broadcast_simple\<close> with
  the address of the replier as host, port 9100 and the default name.
\<close>

theorem plain_text_reply:
  "(parsed r = None \<longrightarrow> broadcast_on_message printers r = printers)
   \<and> (parsed r = None
        \<and> (js_includes (trim (msg r)) (js ''PRINTER'') \<or> js_includes (trim (msg r)) (js ''ESC''))
       \<longrightarrow> test_tool_broadcast_on_message printers r =
             printers @ [\<lparr>host = address r, port = JNum 9100,
                          name = JStr (js ''Printer-'' @ address r),
                          type = js ''broadcast_simple''\<rparr>])"
  by (simp add: broadcast_on_message_def test_tool_broadcast_on_message_def test_tool_catch_def)

lemma trim_PRINTER: "trim (js '' PRINTER '') = js ''PRINTER''"
  by (simp add: trim_def js_whitespace_def js_def)

text \<open>The same padded plain-text reply, given to both handlers.\<close>

theorem plain_text_reply_witness:
  "broadcast_on_message [] \<lparr>msg = js '' PRINTER '', parsed = None, address = js ''192.168.1.50''\<rparr> = []
   \<and> test_tool_broadcast_on_message [] \<lparr>msg = js '' PRINTER '', parsed = None, address = js ''192.168.1.50''\<rparr>
      = [\<lparr>host = js ''192.168.1.50'', port = JNum 9100,
          name = JStr (js ''Printer-'' @ js ''192.168.1.50''),
          type = js ''broadcast_simple''\<rparr>]"
proof -
  have "js_includes (js ''PRINTER'') (js ''PRINTER'')"
    by (simp add: js_def)
  then have "js_includes (trim (msg \<lparr>msg = js '' PRINTER '', parsed = None, address = js ''192.168.1.50''\<rparr>)) (js ''PRINTER'')"
    by (simp add: trim_PRINTER)
  then show ?thesis
    using plain_text_reply [of "\<lparr>msg = js '' PRINTER '', parsed = None, address = js ''192.168.1.50''\<rparr>" "[]"]
    by simp
qed

section \<open>Properties of dispatch\<close>

text \<open>\<^const>\<open>js_split\<close> cuts at the first separator: the first piece is the text before it.\<close>

lemma js_split_not_Nil: "js_split sep s \<noteq> []"
  by (induction s) (auto split: list.splits)

lemma js_split_no_sep: "sep \<notin> set s \<Longrightarrow> js_split sep s = [s]"
  by (induction s) auto

lemma js_split_at_first:
  "sep \<in> set s \<Longrightarrow>
     js_split sep s =
       takeWhile (\<lambda>c. c \<noteq> sep) s # js_split sep (tl (dropWhile (\<lambda>c. c \<noteq> sep) s))"
proof (induction s)
  case Nil
  then show ?case by simp
next
  case (Cons c s)
  show ?case
  proof (cases "c = sep")
    case True
    then show ?thesis by simp
  next
    case False
    with Cons.prems have "sep \<in> set s" by simp
    then have "js_split sep s =
       takeWhile (\<lambda>c. c \<noteq> sep) s # js_split sep (tl (dropWhile (\<lambda>c. c \<noteq> sep) s))"
      by (rule Cons.IH)
    with False show ?thesis by simp
  qed
qed

lemma takeWhile_no_sep: "sep \<notin> set s \<Longrightarrow> takeWhile (\<lambda>c. c \<noteq> sep) s = s"
  by (induction s) auto

lemma hd_js_split: "hd (js_split sep s) = takeWhile (\<lambda>c. c \<noteq> sep) s"
proof (cases "sep \<in> set s")
  case True
  then show ?thesis by (simp add: js_split_at_first)
next
  case False
  then show ?thesis by (simp add: js_split_no_sep takeWhile_no_sep)
qed

lemma split_address_first_colon:
  "split_address d =
     (takeWhile (\<lambda>c. c \<noteq> 0x3A) d,
      if 0x3A \<in> set d
      then Some (takeWhile (\<lambda>c. c \<noteq> 0x3A) (tl (dropWhile (\<lambda>c. c \<noteq> 0x3A) d)))
      else None)"
proof (cases "0x3A \<in> set d")
  case True
  let ?rest = "tl (dropWhile (\<lambda>c. c \<noteq> 0x3A) d)"
  have "js_split 0x3A d = takeWhile (\<lambda>c. c \<noteq> 0x3A) d # js_split 0x3A ?rest"
    using True by (rule js_split_at_first)
  moreover obtain p ps where "js_split 0x3A ?rest = p # ps"
    using js_split_not_Nil [of "0x3A" ?rest] by (cases "js_split 0x3A ?rest") auto
  moreover from this have "p = takeWhile (\<lambda>c. c \<noteq> 0x3A) ?rest"
    using hd_js_split [of "0x3A" ?rest] by simp
  ultimately show ?thesis
    using True by (simp add: split_address_def)
next
  case False
  then show ?thesis
    by (simp add: split_address_def js_split_no_sep takeWhile_no_sep)
qed

text \<open>How \<^verbatim>\<open>parseInt\<close> reads some port texts; beyond 53 bits the number is rounded.\<close>

lemma bitlen_le_iff: "bitlen n \<le> k \<longleftrightarrow> n < 2 ^ k"
proof (induction n arbitrary: k rule: bitlen.induct)
  case (1 n)
  show ?case
  proof (cases "n = 0")
    case True
    then show ?thesis by (simp add: bitlen.simps)
  next
    case False
    show ?thesis
    proof (cases k)
      case 0
      with False show ?thesis by (simp add: bitlen.simps)
    next
      case (Suc j)
      have "bitlen n \<le> Suc j \<longleftrightarrow> bitlen (n div 2) \<le> j"
        using False by (subst bitlen.simps) simp
      also have "\<dots> \<longleftrightarrow> n div 2 < 2 ^ j"
        using False by (rule "1.IH")
      also have "\<dots> \<longleftrightarrow> n < 2 ^ Suc j"
        by auto
      finally show ?thesis using Suc by simp
    qed
  qed
qed

lemma infinite_from: "1024 < bitlen n \<longleftrightarrow> 2 ^ 1024 \<le> n"
  using bitlen_le_iff [of n 1024] by auto

lemma round_double_small: "n < 2 ^ 53 \<Longrightarrow> round_double n = n"
  by (simp add: round_double_def bitlen_le_iff)

lemma to_number_small: "n < 2 ^ 53 \<Longrightarrow> to_number sign n = JNum (sign * int n)"
proof -
  assume small: "n < 2 ^ 53"
  then have "n < 2 ^ 1024"
    by (rule less_le_trans) simp
  then have "\<not> 1024 < bitlen n"
    by (simp add: infinite_from)
  with small show ?thesis
    by (simp add: to_number_def round_double_small)
qed

lemma to_number_infinite:
  "2 ^ 1024 \<le> round_double m \<Longrightarrow>
     to_number sign m = (if sign < 0 then JNegInfinity else JInfinity)"
  by (simp add: to_number_def infinite_from)

lemma parseInt_undefined: "parseInt (js ''undefined'') = JNaN"
proof -
  have "parseInt_digits (js ''undefined'') = None" by code_simp
  then show ?thesis by (simp add: parseInt_def)
qed

lemma parseInt_usb: "parseInt (js ''usb'') = JNaN"
proof -
  have "parseInt_digits (js ''usb'') = None" by code_simp
  then show ?thesis by (simp add: parseInt_def)
qed

lemma parseInt_515: "parseInt (js ''515'') = JNum 515"
proof -
  have "parseInt_digits (js ''515'') = Some (1, 515)" by code_simp
  then show ?thesis by (simp add: parseInt_def to_number_small)
qed

lemma parseInt_zero: "parseInt (js ''0'') = JNum 0"
proof -
  have "parseInt_digits (js ''0'') = Some (1, 0)" by code_simp
  then show ?thesis by (simp add: parseInt_def to_number_small)
qed

lemma parseInt_hex: "parseInt (js '' -0x1F'') = JNum (- 31)"
proof -
  have "parseInt_digits (js '' -0x1F'') = Some (- 1, 31)" by code_simp
  then show ?thesis by (simp add: parseInt_def to_number_small)
qed

lemma parseInt_rounds_to_even: "parseInt (js ''9007199254740993'') = JNum 9007199254740992"
proof -
  have digits: "parseInt_digits (js ''9007199254740993'') = Some (1, 9007199254740993)"
    by code_simp
  have bits: "bitlen 9007199254740993 = 54"
    by (simp add: bitlen.simps)
  have rounded: "round_double 9007199254740993 = 9007199254740992"
    by (simp add: round_double_def bits Let_def)
  have "\<not> 1024 < bitlen 9007199254740992"
    by (simp add: infinite_from)
  then show ?thesis
    by (simp add: parseInt_def digits to_number_def rounded)
qed

lemma parseInt_rounds_up: "parseInt (js ''9007199254740995'') = JNum 9007199254740996"
proof -
  have digits: "parseInt_digits (js ''9007199254740995'') = Some (1, 9007199254740995)"
    by code_simp
  have bits: "bitlen 9007199254740995 = 54"
    by (simp add: bitlen.simps)
  have rounded: "round_double 9007199254740995 = 9007199254740996"
    by (simp add: round_double_def bits Let_def)
  have "\<not> 1024 < bitlen 9007199254740996"
    by (simp add: infinite_from)
  then show ?thesis
    by (simp add: parseInt_def digits to_number_def rounded)
qed

text \<open>
  C8. When the request has no printer, or one without a truthy \<^verbatim>\<open>host\<close>, the printer used is
  built from the configured default address, cut at its first colon: its host is the text
  before that colon, or \<^verbatim>\<open>localhost\<close> when that text is empty; its port is what \<^verbatim>\<open>parseInt\<close>
  makes of the text after that colon (up to the next one) when that is truthy, and 9100
  otherwise, in particular when the address has no colon or when \<^verbatim>\<open>parseInt\<close> gives \<^verbatim>\<open>NaN\<close>.
\<close>

theorem default_printer_fallback:
  assumes "\<not> (truthy printer \<and> (case get_prop printer (js ''host'') of None \<Rightarrow> False | Some v \<Rightarrow> truthy v))"
  shows "\<exists>h pv. printerConfig cfg printer =
             JObj [(js ''host'', JStr h), (js ''port'', pv), (js ''name'', JStr (js ''system-default''))]
          \<and> h = (if takeWhile (\<lambda>c. c \<noteq> 0x3A) (defaultPrinterHost cfg) = [] then js ''localhost''
                 else takeWhile (\<lambda>c. c \<noteq> 0x3A) (defaultPrinterHost cfg))
          \<and> pv = (if 0x3A \<in> set (defaultPrinterHost cfg)
                      \<and> truthy (parseInt (takeWhile (\<lambda>c. c \<noteq> 0x3A)
                                  (tl (dropWhile (\<lambda>c. c \<noteq> 0x3A) (defaultPrinterHost cfg)))))
                   then parseInt (takeWhile (\<lambda>c. c \<noteq> 0x3A)
                                  (tl (dropWhile (\<lambda>c. c \<noteq> 0x3A) (defaultPrinterHost cfg))))
                   else JNum 9100)
          \<and> (0x3A \<notin> set (defaultPrinterHost cfg)
               \<or> parseInt (takeWhile (\<lambda>c. c \<noteq> 0x3A)
                              (tl (dropWhile (\<lambda>c. c \<noteq> 0x3A) (defaultPrinterHost cfg)))) = JNaN
              \<longrightarrow> pv = JNum 9100)"
  using assms
  by (auto simp: printerConfig_def split_address_first_colon or_else_def to_string_def
      parseInt_undefined)

text \<open>
  A default address with an empty host and a port that is no number, and one with a host
  and the port 515.
\<close>

theorem default_printer_fallback_witness:
  "printerConfig (CONFIG\<lparr>defaultPrinterHost := js '':usb''\<rparr>) (JObj [(js ''port'', JNum 631)]) =
     JObj [(js ''host'', JStr (js ''localhost'')), (js ''port'', JNum 9100),
           (js ''name'', JStr (js ''system-default''))]
   \<and> printerConfig (CONFIG\<lparr>defaultPrinterHost := js ''10.0.0.7:515''\<rparr>) JUndefined =
     JObj [(js ''host'', JStr (js ''10.0.0.7'')), (js ''port'', JNum 515),
           (js ''name'', JStr (js ''system-default''))]"
proof -
  let ?cfg = "CONFIG\<lparr>defaultPrinterHost := js '':usb''\<rparr>"
  let ?printer = "JObj [(js ''port'', JNum 631)]"
  have no_host: "\<not> (truthy ?printer \<and> (case get_prop ?printer (js ''host'') of None \<Rightarrow> False | Some v \<Rightarrow> truthy v))"
    by (simp add: js_def)
  have colon: "0x3A \<in> set (defaultPrinterHost ?cfg)"
    by (simp add: js_def)
  have host_part: "takeWhile (\<lambda>c. c \<noteq> 0x3A) (defaultPrinterHost ?cfg) = []"
    by (simp add: js_def)
  have port_part: "takeWhile (\<lambda>c. c \<noteq> 0x3A) (tl (dropWhile (\<lambda>c. c \<noteq> 0x3A) (defaultPrinterHost ?cfg))) = js ''usb''"
    by (simp add: js_def)
  from default_printer_fallback [OF no_host, of ?cfg]
  have 1: "printerConfig ?cfg ?printer =
     JObj [(js ''host'', JStr (js ''localhost'')), (js ''port'', JNum 9100),
           (js ''name'', JStr (js ''system-default''))]"
    unfolding host_part port_part parseInt_usb using colon by auto
  let ?cfg' = "CONFIG\<lparr>defaultPrinterHost := js ''10.0.0.7:515''\<rparr>"
  have no_printer: "\<not> (truthy JUndefined \<and> (case get_prop JUndefined (js ''host'') of None \<Rightarrow> False | Some v \<Rightarrow> truthy v))"
    by simp
  have colon': "0x3A \<in> set (defaultPrinterHost ?cfg')"
    by (simp add: js_def)
  have host_part': "takeWhile (\<lambda>c. c \<noteq> 0x3A) (defaultPrinterHost ?cfg') = js ''10.0.0.7''"
    by (simp add: js_def)
  have host_not_empty: "js ''10.0.0.7'' \<noteq> []"
    by (simp add: js_def)
  have port_part': "takeWhile (\<lambda>c. c \<noteq> 0x3A) (tl (dropWhile (\<lambda>c. c \<noteq> 0x3A) (defaultPrinterHost ?cfg'))) = js ''515''"
    by (simp add: js_def)
  from default_printer_fallback [OF no_printer, of ?cfg']
  have 2: "printerConfig ?cfg' JUndefined =
     JObj [(js ''host'', JStr (js ''10.0.0.7'')), (js ''port'', JNum 515),
           (js ''name'', JStr (js ''system-default''))]"
    unfolding host_part' port_part' parseInt_515 using colon' host_not_empty by auto
  from 1 2 show ?thesis by blast
qed

text \<open>
  C6. When the protocol, lowered, is none of \<^verbatim>\<open>websocket\<close>, \<^verbatim>\<open>raw\<close>, \<^verbatim>\<open>tcp\<close>, \<^verbatim>\<open>http\<close>, the call
  fails with \<^verbatim>\<open>Unsupported protocol\<close>, whatever the three clients are, and the network is as
  it was before the call: no client has run.
\<close>

theorem unsupported_protocol_no_io:
  assumes "toLowerCase protocol \<notin> {js ''websocket'', js ''raw'', js ''tcp'', js ''http''}"
  shows "printWithProtocol viaWebSocket viaRawTCP viaHTTP cfg data printer protocol format w =
           (Inl (Error (js ''Unsupported protocol: '' @ protocol)), w)"
  using assms by (simp add: printWithProtocol_def Let_def)

lemma lower_ftp: "toLowerCase (js ''FTP'') = js ''ftp''"
  by (simp add: toLowerCase_def lower_unit_def js_def)

text \<open>Three clients that would each leave a trace on the network; none is left.\<close>

theorem unsupported_protocol_no_io_witness:
  "printWithProtocol (\<lambda>d p f w. (True, Suc w)) (\<lambda>d p f w. (True, Suc w)) (\<lambda>d p f w. (True, Suc w))
     CONFIG (js ''receipt'') JUndefined (js ''FTP'') (js ''escpos'') (0::nat) =
       (Inl (Error (js ''Unsupported protocol: '' @ js ''FTP'')), 0)"
proof -
  have "toLowerCase (js ''FTP'') \<notin> {js ''websocket'', js ''raw'', js ''tcp'', js ''http''}"
    unfolding lower_ftp by (simp add: js_def)
  then show ?thesis
    by (rule unsupported_protocol_no_io)
qed

text \<open>
  C9. The client is selected by the lowered protocol: two protocols that lower to the same
  text delegate to the same client with the same outcome; and a protocol that lowers to
  \<^verbatim>\<open>tcp\<close> calls the stream client with the same data, printer and format as \<^verbatim>\<open>raw\<close> does.
\<close>

theorem tcp_is_raw:
  "(toLowerCase p = toLowerCase q \<longrightarrow>
      (\<forall>r w'. (printWithProtocol viaWebSocket viaRawTCP viaHTTP cfg data printer p format w = (Inr r, w'))
             = (printWithProtocol viaWebSocket viaRawTCP viaHTTP cfg data printer q format w = (Inr r, w'))))
   \<and> (toLowerCase p = js ''tcp'' \<longrightarrow>
        printWithProtocol viaWebSocket viaRawTCP viaHTTP cfg data printer p format w =
          delegate (viaRawTCP data (printerConfig cfg printer) format w)
        \<and> printWithProtocol viaWebSocket viaRawTCP viaHTTP cfg data printer (js ''raw'') format w =
          delegate (viaRawTCP data (printerConfig cfg printer) format w))"
proof -
  have raw: "toLowerCase (js ''raw'') = js ''raw''"
    by (simp add: toLowerCase_def lower_unit_def js_def)
  have ne: "js ''tcp'' \<noteq> js ''websocket''" "js ''raw'' \<noteq> js ''websocket''"
    by (simp_all add: js_def)
  show ?thesis
    by (simp add: printWithProtocol_def Let_def raw ne)
qed

text \<open>Three clients that record their arguments on the network, called with \<^verbatim>\<open>TcP\<close>.\<close>

theorem tcp_is_raw_witness:
  "printWithProtocol (\<lambda>d p f w. (1::nat, w @ [(1::nat, d, p, f)])) (\<lambda>d p f w. (2, w @ [(2, d, p, f)]))
       (\<lambda>d p f w. (3, w @ [(3, d, p, f)])) CONFIG (js ''receipt'') JUndefined (js ''TcP'') (js ''escpos'') []
     = (Inr 2, [(2, js ''receipt'', printerConfig CONFIG JUndefined, js ''escpos'')])
   \<and> printWithProtocol (\<lambda>d p f w. (1::nat, w @ [(1::nat, d, p, f)])) (\<lambda>d p f w. (2, w @ [(2, d, p, f)]))
       (\<lambda>d p f w. (3, w @ [(3, d, p, f)])) CONFIG (js ''receipt'') JUndefined (js ''raw'') (js ''escpos'') []
     = (Inr 2, [(2, js ''receipt'', printerConfig CONFIG JUndefined, js ''escpos'')])"
proof -
  have "toLowerCase (js ''TcP'') = js ''tcp''"
    by (simp add: toLowerCase_def lower_unit_def js_def)
  then show ?thesis
    using tcp_is_raw [of "js ''TcP''" "js ''tcp''"
        "\<lambda>d p f w. (1::nat, w @ [(1::nat, d, p, f)])" "\<lambda>d p f w. (2, w @ [(2, d, p, f)])"
        "\<lambda>d p f w. (3, w @ [(3, d, p, f)])" CONFIG "js ''receipt''" JUndefined "js ''escpos''" "[]"]
    by (simp add: delegate_def)
qed

section \<open>Properties of the stream client\<close>



text \<open>The delay of the timer, for the default timeout and for timeouts that are no delay.\<close>

lemma connect_delay_CONFIG: "connect_delay CONFIG = 5000"
  by (simp add: connect_delay_def setTimeout_delay_def CONFIG_def)













end
